theory Spec2Isabelle
  imports
    Main
    "HOL-Library.Word"
    "HOL-Library.List_Lexorder"
    "HOL-Library.Product_Lexorder"
    "HOL-Library.DAList"
begin

section \<open>Byte strings, exceptions and dictionaries\<close>

text \<open>
  The program is Python 2: a \<open>str\<close> is a string of bytes, compared byte by byte, an
  integer is unbounded and \<open>//\<close> rounds towards minus infinity, as \<open>div\<close> on \<open>int\<close> does.
  A raised exception is the \<open>Inl\<close> of a sum; \<open>PeerMisbehavingError\<close> and \<open>ValueError\<close>
  carry the message of the source.
\<close>

type_synonym bytes = "8 word list"

datatype error =
    PeerMisbehavingError string
  | ValueError string
  | AssertionError
  | KeyError
  | ZeroDivisionError
  | AttributeError
  | IndexError

definition on_ok :: "error + 'a \<Rightarrow> ('a \<Rightarrow> error + 'b) \<Rightarrow> error + 'b" where
  "on_ok m f = (case m of Inl e \<Rightarrow> Inl e | Inr x \<Rightarrow> f x)"

text \<open>
  A Python \<open>dict\<close> is an association list with distinct keys (\<open>DAList\<close>); the order of
  the list stands for the unspecified iteration order of the dictionary.
  \<open>dict_item d k\<close> is \<open>d[k]\<close> and is only used on keys taken from \<open>d\<close> itself,
  \<open>dict_get d k v\<close> is \<open>d.get(k, v)\<close>, \<open>dict_set d k v\<close> is \<open>d[k] = v\<close>.
\<close>

type_synonym ('k, 'v) dict = "('k, 'v) alist"

definition dict_items :: "('k, 'v) dict \<Rightarrow> ('k \<times> 'v) list" where
  "dict_items d = DAList.impl_of d"

definition dict_keys :: "('k, 'v) dict \<Rightarrow> 'k list" where
  "dict_keys d = map fst (dict_items d)"

definition dict_values :: "('k, 'v) dict \<Rightarrow> 'v list" where
  "dict_values d = map snd (dict_items d)"

definition dict_get :: "('k, 'v) dict \<Rightarrow> 'k \<Rightarrow> 'v \<Rightarrow> 'v" where
  "dict_get d k dflt = (case DAList.lookup d k of None \<Rightarrow> dflt | Some v \<Rightarrow> v)"

definition dict_item :: "('k, 'v) dict \<Rightarrow> 'k \<Rightarrow> 'v" where
  "dict_item d k = the (DAList.lookup d k)"

definition dict_set :: "('k, 'v) dict \<Rightarrow> 'k \<Rightarrow> 'v \<Rightarrow> ('k, 'v) dict" where
  "dict_set d k v = DAList.update k v d"

lift_definition dict_map_values :: "('v \<Rightarrow> 'w) \<Rightarrow> ('k, 'v) dict \<Rightarrow> ('k, 'w) dict"
  is "\<lambda>f. map (\<lambda>(k, v). (k, f v))"
  by (simp add: comp_def case_prod_unfold)

text \<open>\<open>xs.index(x)\<close> for an \<open>x\<close> that occurs in \<open>xs\<close>.\<close>

definition list_index :: "'a list \<Rightarrow> 'a \<Rightarrow> nat" where
  "list_index xs x = length (takeWhile (\<lambda>y. y \<noteq> x) xs)"

section \<open>Share classes, network constants and the modules outside this file\<close>

text \<open>
  The three share classes of \<open>p2pool/data.py\<close>: \<open>Share\<close> (version 7), \<open>NewShare\<close>
  (version 8) and \<open>NewNewShare\<close> (version 9), with their class attributes.
\<close>

datatype share_class = Share | NewShare | NewNewShare

fun VERSION :: "share_class \<Rightarrow> int" where
  "VERSION Share = 7"
| "VERSION NewShare = 8"
| "VERSION NewNewShare = 9"

fun SUCCESSOR :: "share_class \<Rightarrow> share_class option" where
  "SUCCESSOR Share = Some NewNewShare"
| "SUCCESSOR NewShare = Some NewNewShare"
| "SUCCESSOR NewNewShare = None"

fun class_name :: "share_class \<Rightarrow> string" where
  "class_name Share = ''Share''"
| "class_name NewShare = ''NewShare''"
| "class_name NewNewShare = ''NewNewShare''"

definition DONATION_SCRIPT :: bytes where
  "DONATION_SCRIPT =
    [0x41, 0x04, 0xff, 0xd0, 0x3d, 0xe4, 0x4a, 0x6e, 0x11, 0xb9, 0x91, 0x7f, 0x3a, 0x29, 0xf9, 0x44,
     0x32, 0x83, 0xd9, 0x87, 0x1c, 0x9d, 0x74, 0x3e, 0xf3, 0x0d, 0x5e, 0xdd, 0xcd, 0x37, 0x09, 0x4b,
     0x64, 0xd1, 0xb3, 0xd8, 0x09, 0x04, 0x96, 0xb5, 0x32, 0x56, 0x78, 0x6b, 0xf5, 0xc8, 0x29, 0x32,
     0xec, 0x23, 0xc3, 0xb7, 0x4d, 0x9f, 0x05, 0xa6, 0xf9, 0x5a, 0x8b, 0x55, 0x29, 0x35, 0x26, 0x56,
     0x66, 0x4b, 0xac]"

type_synonym peer = nat
type_synonym tx = bytes

subsection \<open>Wire records\<close>

text \<open>
  The dictionaries that the packers produce, one record per \<open>ComposedType\<close>, fields
  named by their keys. A \<open>FloatingInteger\<close> is kept as its compact integer; its
  \<open>target\<close> property belongs to a module outside this file. The share info of a
  version 7 share has no \<open>new_transaction_hashes\<close> and \<open>transaction_hash_refs\<close>:
  both are empty lists there.
\<close>

record small_block_header =
  version :: int
  previous_block :: "int option"
  timestamp :: int
  bits :: int
  nonce :: int

record block_header = small_block_header +
  merkle_root :: int

record share_data =
  previous_share_hash :: "int option"
  coinbase :: bytes
  nonce :: int
  pubkey_hash :: int
  subsidy :: int
  donation :: int
  stale_info :: "string option"
  desired_version :: int

record tx_ref =
  share_count :: nat
  tx_count :: nat

record share_info =
  share_data :: share_data
  new_transaction_hashes :: "int list"
  transaction_hash_refs :: "tx_ref list"
  far_share_hash :: "int option"
  max_bits :: int
  bits :: int
  timestamp :: int

record merkle_link =
  branch :: "int list"
  index :: nat

record hash_link =
  state :: bytes
  extra_data :: bytes
  link_length :: int

text \<open>
  \<open>common\<close> is the argument of \<open>Share.__init__\<close>; \<open>contents\<close> is the argument of
  \<open>NewShare.__init__\<close> and \<open>NewNewShare.__init__\<close> (\<open>last_txout_nonce\<close> exists in
  version 9 only and is not read for version 8).
\<close>

record common =
  min_header :: small_block_header
  share_info :: share_info
  ref_merkle_link :: merkle_link
  hash_link :: hash_link

record contents = common +
  last_txout_nonce :: int
  merkle_link :: merkle_link

record envelope =
  type :: int
  contents :: bytes

record tx_in =
  previous_output :: "int option"
  sequence :: "int option"
  script :: bytes

record tx_out =
  "value" :: int
  script :: bytes

record gentx =
  version :: int
  tx_ins :: "tx_in list"
  tx_outs :: "tx_out list"
  lock_time :: int

subsection \<open>Network constants\<close>

record net =
  SHARE_PERIOD :: int
  CHAIN_LENGTH :: int
  REAL_CHAIN_LENGTH :: int
  TARGET_LOOKBEHIND :: int
  SPREAD :: int
  MIN_TARGET :: int
  MAX_TARGET :: int
  IDENTIFIER :: bytes
  POW_FUNC :: "bytes \<Rightarrow> int"

subsection \<open>Functions of modules outside this file\<close>

text \<open>
  \<open>p2pool/data.py\<close> calls into \<open>p2pool.bitcoin.data\<close>, \<open>p2pool.bitcoin.sha256\<close> and
  \<open>p2pool.util.pack\<close>, which are not part of the source at hand. Every such function
  is a field of the record \<open>ext\<close>, so that each result below holds whatever these
  functions compute:
  \<^item> \<open>process\<close> and \<open>initial_state\<close>: the SHA-256 compression function on a 64-byte
    chunk and the initial chaining value;
  \<^item> \<open>unpack_int256\<close>, \<open>pack_int256\<close>, \<open>pack_int32\<close>: \<open>pack.IntType(n)\<close>;
  \<^item> \<open>hash256\<close>, \<open>check_merkle_link\<close>, \<open>calculate_merkle_link\<close>,
    \<open>pubkey_hash_to_script2\<close>, \<open>target_to_average_attempts\<close>: \<open>bitcoin_data\<close>;
  \<^item> \<open>FloatingInteger_target\<close> and \<open>from_target_upper_bound\<close>: the \<open>target\<close> property
    and the constructor of \<open>bitcoin_data.FloatingInteger\<close>;
  \<^item> \<open>pack_block_header\<close>, \<open>pack_tx\<close>, \<open>packed_size\<close>, \<open>pack_gentx\<close>:
    \<open>bitcoin_data.block_header_type.pack\<close>, \<open>bitcoin_data.tx_type.pack\<close> and
    \<open>packed_size\<close>;
  \<^item> \<open>pack_ref_type\<close>: \<open>cls.ref_type.pack(dict(identifier=..., share_info=...))\<close>;
  \<^item> \<open>gentx_before_refhash\<close>: the class attribute, a constant built with \<open>pack\<close>;
  \<^item> \<open>unpack_share1a\<close>, \<open>unpack_share1b\<close>, \<open>unpack_share_type\<close>: the \<open>unpack\<close> of
    \<open>Share.share1a_type\<close>, \<open>Share.share1b_type\<close> and \<open>cls.share_type\<close>;
  \<^item> \<open>DEBUG\<close>: the flag \<open>p2pool.DEBUG\<close>.
\<close>

record ext =
  process :: "bytes \<Rightarrow> bytes \<Rightarrow> bytes"
  initial_state :: bytes
  unpack_int256 :: "bytes \<Rightarrow> int"
  pack_int256 :: "int \<Rightarrow> bytes"
  pack_int32 :: "int \<Rightarrow> bytes"
  hash256 :: "bytes \<Rightarrow> int"
  check_merkle_link :: "int \<Rightarrow> merkle_link \<Rightarrow> int"
  calculate_merkle_link :: "int option list \<Rightarrow> nat \<Rightarrow> merkle_link"
  pubkey_hash_to_script2 :: "int \<Rightarrow> bytes"
  target_to_average_attempts :: "int \<Rightarrow> int"
  FloatingInteger_target :: "int \<Rightarrow> int"
  from_target_upper_bound :: "int \<Rightarrow> int"
  pack_block_header :: "block_header \<Rightarrow> bytes"
  pack_tx :: "tx \<Rightarrow> bytes"
  packed_size :: "tx \<Rightarrow> int"
  pack_gentx :: "gentx \<Rightarrow> bytes"
  pack_ref_type :: "share_class \<Rightarrow> bytes \<Rightarrow> share_info \<Rightarrow> bytes"
  gentx_before_refhash :: "share_class \<Rightarrow> bytes"
  unpack_share1a :: "bytes \<Rightarrow> error + common \<times> merkle_link"
  unpack_share1b :: "bytes \<Rightarrow> error + common \<times> tx list"
  unpack_share_type :: "share_class \<Rightarrow> bytes \<Rightarrow> error + contents"
  DEBUG :: bool

subsection \<open>Share objects and the tracker\<close>

text \<open>
  A constructed share: the attributes that \<open>__init__\<close> sets (\<open>__slots__\<close>), with
  \<open>cls\<close> for \<open>type(self)\<close>. The dictionary passed to the constructor (\<open>contents\<close>,
  or \<open>common\<close> with \<open>merkle_link\<close> for version 7) is kept in the field \<open>contents\<close>.
  \<open>net\<close> is passed where it is needed and \<open>time_seen\<close>, the wall clock at
  construction, is left out.
\<close>

record share =
  cls :: share_class
  peer :: "peer option"
  contents :: contents
  other_txs :: "tx list option"
  share_data :: share_data
  max_target :: int
  target :: int
  timestamp :: int
  previous_hash :: "int option"
  new_script :: bytes
  desired_version :: int
  gentx_hash :: int
  header :: block_header
  pow_hash :: int
  hash :: int
  header_hash :: int
  new_transaction_hashes :: "int list"

text \<open>
  The tracker (\<open>forest.Tracker\<close>, and \<open>WeightsSkipList\<close> behind
  \<open>get_cumulative_weights\<close>) is an object of a module outside this file: its
  dictionary \<open>items\<close> and the methods that \<open>p2pool/data.py\<close> calls are the fields of
  this record. A share hash is an integer, \<open>None\<close> where the source passes \<open>None\<close>.
  \<open>get_delta_work\<close> and \<open>get_delta_min_work\<close> are the attributes \<open>work\<close> and
  \<open>min_work\<close> of \<open>tracker.get_delta(near, far)\<close>.
\<close>

record tracker =
  items :: "int \<rightharpoonup> share"
  get_height :: "int option \<Rightarrow> int"
  get_height_and_last :: "int option \<Rightarrow> int \<times> int option"
  get_nth_parent_hash :: "int option \<Rightarrow> int \<Rightarrow> int option"
  get_chain :: "int option \<Rightarrow> int \<Rightarrow> share list"
  get_delta_work :: "int option \<Rightarrow> int option \<Rightarrow> int"
  get_delta_min_work :: "int option \<Rightarrow> int option \<Rightarrow> int"
  get_cumulative_weights :: "int option \<Rightarrow> int \<Rightarrow> int \<Rightarrow> (bytes, int) dict \<times> int \<times> int"

definition items_getitem :: "tracker \<Rightarrow> int option \<Rightarrow> error + share" where
  "items_getitem tracker h =
    (case h of
       None \<Rightarrow> Inl KeyError
     | Some k \<Rightarrow> (case items tracker k of None \<Rightarrow> Inl KeyError | Some s \<Rightarrow> Inr s))"

section \<open>generate_transaction\<close>

text \<open>
  Modelled from the spec: \<open>math.clip\<close> of \<open>p2pool.util.math\<close>, which is not part of
  the source at hand. The spec calls it a clamp of a value to the pair
  \<open>(low, high)\<close>: a value below \<open>low\<close> becomes \<open>low\<close>, a value above \<open>high\<close> becomes
  \<open>high\<close>, any other value is returned unchanged.
\<close>

definition clip :: "int \<Rightarrow> int \<times> int \<Rightarrow> int" where
  "clip x bounds =
    (case bounds of (low, high) \<Rightarrow> if x < low then low else if x > high then high else x)"

text \<open>\<open>cls.get_ref_hash(net, share_info, ref_merkle_link)\<close>.\<close>

definition get_ref_hash :: "share_class \<Rightarrow> ext \<Rightarrow> net \<Rightarrow> share_info \<Rightarrow> merkle_link \<Rightarrow> bytes" where
  "get_ref_hash c ext net info ref_link =
    pack_int256 ext
      (check_merkle_link ext (hash256 ext (pack_ref_type ext c (IDENTIFIER net) info)) ref_link)"

text \<open>
  \<open>get_pool_attempts_per_second\<close> with \<open>integer=True\<close>, the only way
  \<open>generate_transaction\<close> calls it (the other branch divides floating-point numbers).
\<close>

definition get_pool_attempts_per_second ::
  "tracker \<Rightarrow> int option \<Rightarrow> int \<Rightarrow> bool \<Rightarrow> error + int" where
  "get_pool_attempts_per_second tracker prev_hash dist min_work =
    (if \<not> dist \<ge> 2 then Inl AssertionError
     else
       on_ok (items_getitem tracker prev_hash) (\<lambda>near.
       on_ok (items_getitem tracker (get_nth_parent_hash tracker prev_hash (dist - 1))) (\<lambda>far.
         let attempts =
               (if \<not> min_work
                then get_delta_work tracker (Some (share.hash near)) (Some (share.hash far))
                else get_delta_min_work tracker (Some (share.hash near)) (Some (share.hash far)));
             time0 = share.timestamp near - share.timestamp far;
             time = (if time0 \<le> 0 then 1 else time0)
         in Inr (attempts div time))))"

text \<open>
  The payout split, lines \<open>amounts = dict(...)\<close> to \<open>amounts[DONATION_SCRIPT] = ...\<close>:
  99.5% according to the weights, 0.5% to the finder of the share, the rest to the
  donation script. The division by \<open>200*total_weight\<close> is only evaluated when
  \<open>weights\<close> has an entry; \<open>generate_transaction\<close> below raises where it would divide
  by zero.
\<close>

definition payout_amounts :: "int \<Rightarrow> (bytes, int) dict \<Rightarrow> int \<Rightarrow> bytes \<Rightarrow> (bytes, int) dict" where
  "payout_amounts subsidy_v weights total_weight this_script =
    (let amounts1 = dict_map_values (\<lambda>weight. subsidy_v * (199 * weight) div (200 * total_weight)) weights;
         amounts2 = dict_set amounts1 this_script (dict_get amounts1 this_script 0 + subsidy_v div 200);
         amounts3 = dict_set amounts2 DONATION_SCRIPT
           (dict_get amounts2 DONATION_SCRIPT 0 + subsidy_v - sum_list (dict_values amounts2))
     in amounts3)"

text \<open>
  \<open>dests\<close>: the keys sorted by \<open>(script == DONATION_SCRIPT, amounts[script], script)\<close>,
  of which the last 4000 are kept.
\<close>

definition payout_dests :: "(bytes, int) dict \<Rightarrow> bytes list" where
  "payout_dests amounts =
    (let sorted_scripts =
           sort_key (\<lambda>script. (script = DONATION_SCRIPT, dict_item amounts script, script))
             (dict_keys amounts)
     in drop (length sorted_scripts - 4000) sorted_scripts)"

text \<open>
  The loop over \<open>desired_other_transaction_hashes\<close> of versions 8 and 9.
  \<open>find_in_chain\<close> is the inner loop over the enumerated chain, \<open>None\<close> when it ends
  without \<open>break\<close>. The state of \<open>tx_loop\<close> is \<open>(new_transaction_hashes,
  new_transaction_size, transaction_hash_refs, other_transaction_hashes)\<close>.
\<close>

fun find_in_chain :: "int \<Rightarrow> share list \<Rightarrow> nat \<Rightarrow> tx_ref option" where
  "find_in_chain tx_hash [] i = None"
| "find_in_chain tx_hash (s # rest) i =
    (if tx_hash \<in> set (share.new_transaction_hashes s)
     then Some \<lparr>share_count = i + 1, tx_count = list_index (share.new_transaction_hashes s) tx_hash\<rparr>
     else find_in_chain tx_hash rest (i + 1))"

fun tx_loop ::
  "ext \<Rightarrow> share list \<Rightarrow> (int \<rightharpoonup> tx) option \<Rightarrow> int list \<Rightarrow>
   int list \<times> int \<times> tx_ref list \<times> int list \<Rightarrow> error + int list \<times> int \<times> tx_ref list \<times> int list" where
  "tx_loop ext shares known_txs [] st = Inr st"
| "tx_loop ext shares known_txs (tx_hash # rest) (new_hashes, new_size, refs, others) =
    (case find_in_chain tx_hash shares 0 of
       Some this \<Rightarrow> tx_loop ext shares known_txs rest (new_hashes, new_size, refs @ [this], others @ [tx_hash])
     | None \<Rightarrow>
        (case known_txs of
           None \<Rightarrow>
             tx_loop ext shares known_txs rest
               (new_hashes @ [tx_hash], new_size,
                refs @ [\<lparr>share_count = 0, tx_count = length new_hashes\<rparr>], others @ [tx_hash])
         | Some known \<Rightarrow>
            (case known tx_hash of
               None \<Rightarrow> Inl KeyError
             | Some t \<Rightarrow>
                 if new_size + packed_size ext t > 50000 then Inr (new_hashes, new_size, refs, others)
                 else
                   tx_loop ext shares known_txs rest
                     (new_hashes @ [tx_hash], new_size + packed_size ext t,
                      refs @ [\<lparr>share_count = 0, tx_count = length new_hashes\<rparr>], others @ [tx_hash]))))"

text \<open>The target window, \<open>pre_target3\<close> of the source.\<close>

definition pre_target3_of ::
  "ext \<Rightarrow> tracker \<Rightarrow> net \<Rightarrow> share_data \<Rightarrow> share option \<Rightarrow> int \<Rightarrow> error + int" where
  "pre_target3_of ext tracker net sd previous_share height =
    (if height < TARGET_LOOKBEHIND net then Inr (MAX_TARGET net)
     else
       on_ok (get_pool_attempts_per_second tracker (previous_share_hash sd) (TARGET_LOOKBEHIND net) True)
         (\<lambda>attempts_per_second.
           if attempts_per_second \<noteq> 0 \<and> SHARE_PERIOD net * attempts_per_second = 0
           then Inl ZeroDivisionError
           else
             let pre_target =
                   (if attempts_per_second \<noteq> 0
                    then 2 ^ 256 div (SHARE_PERIOD net * attempts_per_second) - 1
                    else 2 ^ 256 - 1)
             in (case previous_share of
                   None \<Rightarrow> Inl AttributeError
                 | Some p \<Rightarrow>
                     let pre_target2 = clip pre_target (max_target p * 9 div 10, max_target p * 11 div 10)
                     in Inr (clip pre_target2 (MIN_TARGET net, MAX_TARGET net)))))"

text \<open>
  The timestamp that \<open>generate_transaction\<close> writes into \<open>share_info\<close>.
\<close>

definition share_info_timestamp :: "net \<Rightarrow> share option \<Rightarrow> int \<Rightarrow> int" where
  "share_info_timestamp net previous_share desired_timestamp =
    (case previous_share of
       Some p \<Rightarrow>
         clip desired_timestamp
           ((share.timestamp p + SHARE_PERIOD net) - (SHARE_PERIOD net - 1),
            (share.timestamp p + SHARE_PERIOD net) + (SHARE_PERIOD net - 1))
     | None \<Rightarrow> desired_timestamp)"

text \<open>
  The outputs of the generation transaction: one output per destination whose amount
  is not zero or whose script is the donation script, then the output of value 0
  that carries the reference hash (tag \<open>0x24\<close> and the packed \<open>last_txout_nonce\<close> for
  version 9, tag \<open>0x20\<close> for versions 7 and 8).
\<close>

definition ref_script :: "share_class \<Rightarrow> ext \<Rightarrow> bytes \<Rightarrow> int \<Rightarrow> bytes" where
  "ref_script c ext ref_hash nonce_v =
    (if c = NewNewShare then [0x24] @ ref_hash @ pack_int32 ext nonce_v else [0x20] @ ref_hash)"

definition gentx_tx_outs :: "(bytes, int) dict \<Rightarrow> bytes list \<Rightarrow> bytes \<Rightarrow> tx_out list" where
  "gentx_tx_outs amounts dests last_script =
    map (\<lambda>s. \<lparr>value = dict_item amounts s, script = s\<rparr>)
      (filter (\<lambda>s. dict_item amounts s \<noteq> 0 \<or> s = DONATION_SCRIPT) dests)
    @ [\<lparr>value = 0, script = last_script\<rparr>]"

text \<open>
  The dictionaries \<open>share_info\<close> and \<open>gentx\<close> that \<open>generate_transaction\<close> builds
  last, from the values computed before.
\<close>

definition make_share_info ::
  "net \<Rightarrow> share_data \<Rightarrow> share option \<Rightarrow> int list \<Rightarrow> tx_ref list \<Rightarrow> int option \<Rightarrow> int \<Rightarrow> int \<Rightarrow> int \<Rightarrow>
   share_info" where
  "make_share_info net sd previous_share new_hashes refs far_hash max_bits_v bits_v desired_timestamp =
    \<lparr>share_info.share_data = sd,
     new_transaction_hashes = new_hashes,
     transaction_hash_refs = refs,
     far_share_hash = far_hash,
     max_bits = max_bits_v,
     bits = bits_v,
     timestamp = share_info_timestamp net previous_share desired_timestamp\<rparr>"

definition make_gentx ::
  "share_class \<Rightarrow> ext \<Rightarrow> net \<Rightarrow> share_data \<Rightarrow> (bytes, int) dict \<Rightarrow> bytes list \<Rightarrow> share_info \<Rightarrow>
   merkle_link \<Rightarrow> int \<Rightarrow> gentx" where
  "make_gentx c ext net sd amounts dests info ref_link nonce_v =
    \<lparr>gentx.version = 1,
     tx_ins = [\<lparr>previous_output = None, sequence = None,
                script = (if c = Share
                          then coinbase sd @ replicate (2 - length (coinbase sd)) 0
                          else coinbase sd)\<rparr>],
     tx_outs = gentx_tx_outs amounts dests
                 (ref_script c ext (get_ref_hash c ext net info ref_link) nonce_v),
     lock_time = 0\<rparr>"

text \<open>
  \<open>cls.generate_transaction\<close>, one definition for the three classes, which differ in
  the places marked by \<open>c\<close>: version 7 has no transaction references, pads the coinbase
  to two bytes and returns \<open>desired_other_transaction_hashes\<close>; version 9 adds
  \<open>last_txout_nonce\<close>. The body is cut into the stages that can raise, in the order
  of the source:
  \<^item> \<open>lookup_previous_share\<close>: \<open>tracker.items[...]\<close> when there is a previous hash;
  \<^item> \<open>checked_height_and_last\<close>: \<open>get_height_and_last\<close> and the assertion after it;
  \<^item> \<open>pre_target3_of\<close>: the target window;
  \<^item> \<open>checked_weights\<close>: \<open>get_cumulative_weights\<close> and the assertion after it;
  \<^item> \<open>checked_amounts\<close>: the payout split and the test that raises \<open>ValueError\<close>;
  \<^item> \<open>new_transaction_refs\<close>: the loop over the desired transaction hashes.
  The result is \<open>(share_info, gentx, other_transaction_hashes)\<close>; the closure
  \<open>get_share\<close>, the fourth component, is not modelled.
\<close>

definition lookup_previous_share :: "tracker \<Rightarrow> share_data \<Rightarrow> error + share option" where
  "lookup_previous_share tracker sd =
    (case previous_share_hash sd of
       None \<Rightarrow> Inr None
     | Some h \<Rightarrow> on_ok (items_getitem tracker (Some h)) (\<lambda>s. Inr (Some s)))"

definition checked_height_and_last :: "tracker \<Rightarrow> net \<Rightarrow> share_data \<Rightarrow> error + int \<times> int option" where
  "checked_height_and_last tracker net sd =
    (case get_height_and_last tracker (previous_share_hash sd) of
       (height, last_v) \<Rightarrow>
         if \<not> (height \<ge> REAL_CHAIN_LENGTH net \<or> last_v = None) then Inl AssertionError
         else Inr (height, last_v))"

definition checked_weights ::
  "ext \<Rightarrow> tracker \<Rightarrow> net \<Rightarrow> share_data \<Rightarrow> int \<Rightarrow> int \<Rightarrow> error + (bytes, int) dict \<times> int \<times> int" where
  "checked_weights ext tracker net sd block_target height =
    (case get_cumulative_weights tracker (previous_share_hash sd)
            (min height (REAL_CHAIN_LENGTH net))
            (65535 * SPREAD net * target_to_average_attempts ext block_target)
     of (weights, total_weight, donation_weight) \<Rightarrow>
       if total_weight \<noteq> sum_list (dict_values weights) + donation_weight then Inl AssertionError
       else Inr (weights, total_weight, donation_weight))"

definition checked_amounts ::
  "ext \<Rightarrow> share_data \<Rightarrow> (bytes, int) dict \<Rightarrow> int \<Rightarrow> error + (bytes, int) dict" where
  "checked_amounts ext sd weights total_weight =
    (if dict_items weights \<noteq> [] \<and> 200 * total_weight = 0 then Inl ZeroDivisionError
     else
       let this_script = pubkey_hash_to_script2 ext (pubkey_hash sd);
           amounts = payout_amounts (subsidy sd) weights total_weight this_script
       in if sum_list (dict_values amounts) \<noteq> subsidy sd \<or> (\<exists>x\<in>set (dict_values amounts). x < 0)
          then Inl (ValueError [])
          else Inr amounts)"

definition new_transaction_refs ::
  "share_class \<Rightarrow> ext \<Rightarrow> tracker \<Rightarrow> share_data \<Rightarrow> int \<Rightarrow> int list \<Rightarrow> (int \<rightharpoonup> tx) option \<Rightarrow>
   error + int list \<times> int \<times> tx_ref list \<times> int list" where
  "new_transaction_refs c ext tracker sd height desired_other_transaction_hashes known_txs =
    (if c = Share then Inr ([], 0, [], desired_other_transaction_hashes)
     else tx_loop ext (get_chain tracker (previous_share_hash sd) (min height 100)) known_txs
            desired_other_transaction_hashes ([], 0, [], []))"

definition generate_transaction ::
  "share_class \<Rightarrow> ext \<Rightarrow> tracker \<Rightarrow> share_data \<Rightarrow> int \<Rightarrow> int \<Rightarrow> int \<Rightarrow> merkle_link \<Rightarrow> int list \<Rightarrow>
   net \<Rightarrow> (int \<rightharpoonup> tx) option \<Rightarrow> int \<Rightarrow> error + share_info \<times> gentx \<times> int list" where
  "generate_transaction c ext tracker sd block_target desired_timestamp desired_target
     ref_link desired_other_transaction_hashes net known_txs nonce_v =
    on_ok (lookup_previous_share tracker sd) (\<lambda>previous_share.
    on_ok (checked_height_and_last tracker net sd) (\<lambda>(height, last_v).
    on_ok (pre_target3_of ext tracker net sd previous_share height) (\<lambda>pre_target3.
    let max_bits_v = from_target_upper_bound ext pre_target3;
        bits_v = from_target_upper_bound ext (clip desired_target (pre_target3 div 10, pre_target3))
    in
    on_ok (checked_weights ext tracker net sd block_target height)
      (\<lambda>(weights, total_weight, donation_weight).
    on_ok (checked_amounts ext sd weights total_weight) (\<lambda>amounts.
    let dests = payout_dests amounts in
    on_ok (new_transaction_refs c ext tracker sd height desired_other_transaction_hashes known_txs)
      (\<lambda>(new_hashes, new_size, refs, other_transaction_hashes).
    let far_hash =
          (if last_v = None \<and> height < 99 then None
           else get_nth_parent_hash tracker (previous_share_hash sd) 99);
        share_info_v =
          make_share_info net sd previous_share new_hashes refs far_hash max_bits_v bits_v
            desired_timestamp;
        gentx_v = make_gentx c ext net sd amounts dests share_info_v ref_link nonce_v
    in Inr (share_info_v, gentx_v, other_transaction_hashes)))))))"

section \<open>Hash links\<close>

text \<open>
  Modelled from the spec: the class \<open>sha256\<close> of \<open>p2pool.bitcoin.sha256\<close>, which is not
  part of the source at hand. The spec describes it as an incomplete SHA-256 state
  covering a prefix plus up to one block of buffered tail bytes: the object holds the
  chaining \<open>state\<close>, the bytes \<open>buf\<close> of the last, incomplete 64-byte block and the
  \<open>length\<close> in bits of everything fed so far. \<open>update\<close> feeds every complete block to
  the compression function \<open>process\<close>; \<open>digest\<close> appends the SHA-256 padding (the byte
  \<open>0x80\<close>, zero bytes up to 56 modulo 64, the bit length as 8 big-endian bytes) and
  returns the final state. The compression function and the initial state are
  parameters (\<open>ext\<close>). \<open>hashlib.sha256\<close> is the same function started from the
  initial state.
\<close>

record sha256 =
  state :: bytes
  buf :: bytes
  bit_length :: int

function absorb :: "ext \<Rightarrow> bytes \<Rightarrow> bytes \<Rightarrow> bytes \<times> bytes" where
  "absorb ext st b =
    (if 64 \<le> length b then absorb ext (process ext st (take 64 b)) (drop 64 b) else (st, b))"
  by pat_completeness auto
termination
  by (relation "measure (\<lambda>(ext, st, b). length b)") auto

definition sha256_update :: "ext \<Rightarrow> sha256 \<Rightarrow> bytes \<Rightarrow> sha256" where
  "sha256_update ext x data =
    (case absorb ext (sha256.state x) (buf x @ data) of
       (st, rest) \<Rightarrow>
         \<lparr>sha256.state = st, buf = rest, bit_length = bit_length x + 8 * int (length data)\<rparr>)"

definition sha256_new :: "ext \<Rightarrow> bytes \<Rightarrow> bytes \<times> bytes \<times> int \<Rightarrow> sha256" where
  "sha256_new ext data init =
    (case init of
       (st, b, n) \<Rightarrow> sha256_update ext \<lparr>sha256.state = st, buf = b, bit_length = n\<rparr> data)"

definition pack_be64 :: "int \<Rightarrow> bytes" where
  "pack_be64 n = map (\<lambda>i. word_of_int (n div 256 ^ (7 - i))) [0..<8]"

definition sha256_digest :: "ext \<Rightarrow> sha256 \<Rightarrow> bytes" where
  "sha256_digest ext x =
    fst (absorb ext (sha256.state x)
           (buf x @ [0x80] @ replicate (nat ((64 - 9 - int (length (buf x))) mod 64)) 0
            @ pack_be64 (bit_length x)))"

definition hashlib_sha256 :: "ext \<Rightarrow> bytes \<Rightarrow> bytes" where
  "hashlib_sha256 ext data = sha256_digest ext (sha256_new ext data (initial_state ext, [], 0))"

text \<open>\<open>prefix.endswith(const_ending)\<close>.\<close>

definition endswith :: "bytes \<Rightarrow> bytes \<Rightarrow> bool" where
  "endswith s e \<longleftrightarrow> length e \<le> length s \<and> drop (length s - length e) s = e"

text \<open>\<open>prefix_to_hash_link\<close> and \<open>check_hash_link\<close>, with their assertions.\<close>

definition prefix_to_hash_link :: "ext \<Rightarrow> bytes \<Rightarrow> bytes \<Rightarrow> error + hash_link" where
  "prefix_to_hash_link ext prefix const_ending =
    (if \<not> endswith prefix const_ending then Inl AssertionError
     else
       let x = sha256_new ext prefix (initial_state ext, [], 0)
       in Inr \<lparr>hash_link.state = sha256.state x,
               extra_data = take (nat (max 0 (int (length (buf x)) - int (length const_ending)))) (buf x),
               link_length = bit_length x div 8\<rparr>)"

definition check_hash_link :: "ext \<Rightarrow> hash_link \<Rightarrow> bytes \<Rightarrow> bytes \<Rightarrow> error + int" where
  "check_hash_link ext link data const_ending =
    (let extra_length = link_length link mod (512 div 8)
     in if int (length (extra_data link)) \<noteq> max 0 (extra_length - int (length const_ending))
        then Inl AssertionError
        else
          let extra =
                drop (nat (int (length (extra_data link)) + int (length const_ending) - extra_length))
                  (extra_data link @ const_ending)
          in if int (length extra) \<noteq> extra_length then Inl AssertionError
             else Inr (unpack_int256 ext
                         (hashlib_sha256 ext
                            (sha256_digest ext
                               (sha256_new ext data
                                  (hash_link.state link, extra, 8 * link_length link))))))"

section \<open>Construction of shares\<close>

text \<open>
  The attribute assignments of the three constructors, which are the same up to the
  class, the transactions of a version 7 block and \<open>new_transaction_hashes\<close>.
\<close>

definition share_attributes ::
  "share_class \<Rightarrow> ext \<Rightarrow> net \<Rightarrow> peer option \<Rightarrow> contents \<Rightarrow> tx list option \<Rightarrow> int \<Rightarrow> int list \<Rightarrow> share" where
  "share_attributes c ext net peer_v cont txs gentx_hash_v new_hashes =
    (let info = common.share_info cont;
         sd = share_info.share_data info;
         merkle_root_v = check_merkle_link ext gentx_hash_v (contents.merkle_link cont);
         header_v = small_block_header.extend (min_header cont) (block_header.fields merkle_root_v)
     in \<lparr>cls = c,
         peer = peer_v,
         contents = cont,
         other_txs = txs,
         share_data = sd,
         max_target = FloatingInteger_target ext (max_bits info),
         target = FloatingInteger_target ext (share_info.bits info),
         timestamp = share_info.timestamp info,
         previous_hash = previous_share_hash sd,
         new_script = pubkey_hash_to_script2 ext (pubkey_hash sd),
         desired_version = share_data.desired_version sd,
         gentx_hash = gentx_hash_v,
         header = header_v,
         pow_hash = POW_FUNC net (pack_block_header ext header_v),
         hash = hash256 ext (pack_block_header ext header_v),
         header_hash = hash256 ext (pack_block_header ext header_v),
         new_transaction_hashes = new_hashes\<rparr>)"

text \<open>\<open>NewNewShare.__init__(self, net, peer, contents)\<close>, version 9.\<close>

definition NewNewShare_init :: "ext \<Rightarrow> net \<Rightarrow> peer option \<Rightarrow> contents \<Rightarrow> error + share" where
  "NewNewShare_init ext net peer_v cont =
    (let info = common.share_info cont; sd = share_info.share_data info
     in if \<not> (2 \<le> length (coinbase sd) \<and> length (coinbase sd) \<le> 100)
        then Inl (ValueError ''bad coinbase size!'')
        else if length (branch (contents.merkle_link cont)) > 16
        then Inl (ValueError ''merkle branch too long!'')
        else if extra_data (common.hash_link cont) \<noteq> [] then Inl AssertionError
        else if \<not> (\<forall>x\<in>set (transaction_hash_refs info). share_count x < 110) then Inl AssertionError
        else if \<not> (\<forall>i\<in>set [0..<length (share_info.new_transaction_hashes info)].
                      \<lparr>share_count = 0, tx_count = i\<rparr> \<in> set (transaction_hash_refs info))
        then Inl AssertionError
        else
          on_ok (check_hash_link ext (common.hash_link cont)
                   (get_ref_hash NewNewShare ext net info (ref_merkle_link cont)
                    @ pack_int32 ext (last_txout_nonce cont) @ pack_int32 ext 0)
                   (gentx_before_refhash ext NewNewShare))
            (\<lambda>gentx_hash_v.
              let self = share_attributes NewNewShare ext net peer_v cont None gentx_hash_v
                           (share_info.new_transaction_hashes info)
              in if target self > MAX_TARGET net then Inl (PeerMisbehavingError ''share target invalid'')
                 else if pow_hash self > target self then Inl (PeerMisbehavingError ''share PoW invalid'')
                 else Inr self))"

text \<open>\<open>NewShare.__init__(self, net, peer, contents)\<close>, version 8.\<close>

definition NewShare_init :: "ext \<Rightarrow> net \<Rightarrow> peer option \<Rightarrow> contents \<Rightarrow> error + share" where
  "NewShare_init ext net peer_v cont =
    (let info = common.share_info cont; sd = share_info.share_data info
     in if \<not> (2 \<le> length (coinbase sd) \<and> length (coinbase sd) \<le> 100)
        then Inl (ValueError ''bad coinbase size!'')
        else if length (branch (contents.merkle_link cont)) > 16
        then Inl (ValueError ''merkle branch too long!'')
        else if extra_data (common.hash_link cont) \<noteq> [] then Inl AssertionError
        else if \<not> (\<forall>x\<in>set (transaction_hash_refs info). share_count x < 110) then Inl AssertionError
        else if \<not> (\<forall>i\<in>set [0..<length (share_info.new_transaction_hashes info)].
                      \<lparr>share_count = 0, tx_count = i\<rparr> \<in> set (transaction_hash_refs info))
        then Inl AssertionError
        else
          on_ok (check_hash_link ext (common.hash_link cont)
                   (get_ref_hash NewShare ext net info (ref_merkle_link cont) @ pack_int32 ext 0)
                   (gentx_before_refhash ext NewShare))
            (\<lambda>gentx_hash_v.
              let self = share_attributes NewShare ext net peer_v cont None gentx_hash_v
                           (share_info.new_transaction_hashes info)
              in if target self > MAX_TARGET net then Inl (PeerMisbehavingError ''share target invalid'')
                 else if pow_hash self > target self then Inl (PeerMisbehavingError ''share PoW invalid'')
                 else Inr self))"

text \<open>
  \<open>Share.__init__(self, net, peer, common, merkle_link, other_txs)\<close>, version 7. The
  share keeps \<open>common\<close> and \<open>merkle_link\<close> together as its \<open>contents\<close>
  (\<open>last_txout_nonce\<close> does not exist there and is 0).
\<close>

definition Share_init ::
  "ext \<Rightarrow> net \<Rightarrow> peer option \<Rightarrow> common \<Rightarrow> merkle_link \<Rightarrow> tx list option \<Rightarrow> error + share" where
  "Share_init ext net peer_v cm link txs =
    (let info = common.share_info cm; sd = share_info.share_data info;
         cont = common.extend cm (contents.fields 0 link)
     in if length (coinbase sd) > 100 then Inl (ValueError ''coinbase too large!'')
        else if length (branch link) > 16 then Inl (ValueError ''merkle branch too long!'')
        else if DEBUG ext \<and> txs \<noteq> None \<and>
                calculate_merkle_link ext (Some 0 # map (\<lambda>x. Some (hash256 ext (pack_tx ext x))) (the txs)) 0 \<noteq> link
        then Inl (ValueError ''merkle_link and other_txs do not match'')
        else if extra_data (common.hash_link cm) \<noteq> [] then Inl AssertionError
        else
          on_ok (check_hash_link ext (common.hash_link cm)
                   (get_ref_hash Share ext net info (ref_merkle_link cm) @ pack_int32 ext 0)
                   (gentx_before_refhash ext Share))
            (\<lambda>gentx_hash_v.
              let self = share_attributes Share ext net peer_v cont txs gentx_hash_v [] ;
                  block_target = FloatingInteger_target ext (small_block_header.bits (header self))
              in if pow_hash self > target self then Inl (PeerMisbehavingError ''share PoW invalid'')
                 else if txs \<noteq> None \<and> \<not> pow_hash self \<le> block_target
                 then Inl (ValueError ''other_txs provided when not a block solution'')
                 else if txs = None \<and> pow_hash self \<le> block_target
                 then Inl (ValueError ''other_txs not provided when a block solution'')
                 else Inr self))"

section \<open>load_share\<close>

text \<open>
  \<open>load_share(share, net, peer)\<close>. The packers that decode \<open>contents\<close> belong to a
  module outside this file (\<open>ext\<close>); a decoding error is whatever they return.
\<close>

definition load_share :: "ext \<Rightarrow> envelope \<Rightarrow> net \<Rightarrow> peer option \<Rightarrow> error + share" where
  "load_share ext sh net peer_v =
    (if type sh \<in> {0, 1, 2, 3} then Inl (PeerMisbehavingError ''sent an obsolete share'')
     else if type sh = 4 then
       on_ok (unpack_share1a ext (envelope.contents sh))
         (\<lambda>(cm, link). Share_init ext net peer_v cm link None)
     else if type sh = 5 then
       on_ok (unpack_share1b ext (envelope.contents sh))
         (\<lambda>(cm, txs).
           Share_init ext net peer_v cm
             (calculate_merkle_link ext (Some 0 # map (\<lambda>x. Some (hash256 ext (pack_tx ext x))) txs) 0)
             (Some txs))
     else if type sh = VERSION NewShare then
       on_ok (unpack_share_type ext NewShare (envelope.contents sh)) (NewShare_init ext net peer_v)
     else if type sh = VERSION NewNewShare then
       on_ok (unpack_share_type ext NewNewShare (envelope.contents sh)) (NewNewShare_init ext net peer_v)
     else Inl (ValueError ''unknown share type''))"

section \<open>The successor check of check(tracker)\<close>

text \<open>\<open>get_desired_version_counts(tracker, best_share_hash, dist)\<close>.\<close>

definition get_desired_version_counts :: "ext \<Rightarrow> tracker \<Rightarrow> int option \<Rightarrow> int \<Rightarrow> (int, int) dict" where
  "get_desired_version_counts ext tracker best_share_hash dist =
    foldl (\<lambda>res s.
             dict_set res (share.desired_version s)
               (dict_get res (share.desired_version s) 0
                + target_to_average_attempts ext (target s)))
      DAList.empty (get_chain tracker best_share_hash dist)"

definition cannot_follow :: "share_class \<Rightarrow> share_class \<Rightarrow> string" where
  "cannot_follow c p = class_name c @ '' can'' @ [CHR 0x27] @ ''t follow '' @ class_name p"

text \<open>
  The first statement of \<open>check(self, tracker)\<close>, the same in the three classes: the
  test of the type of the previous share. It returns nothing; \<open>check\<close> goes on with
  \<open>generate_transaction\<close> and the comparisons, which raise \<open>ValueError\<close>,
  \<open>AssertionError\<close>, \<open>KeyError\<close> or \<open>IndexError\<close> only.
\<close>

definition check_previous_type :: "ext \<Rightarrow> net \<Rightarrow> tracker \<Rightarrow> share \<Rightarrow> error + unit" where
  "check_previous_type ext net tracker self =
    (case previous_share_hash (share.share_data self) of
       None \<Rightarrow> Inr ()
     | Some h \<Rightarrow>
         on_ok (items_getitem tracker (Some h)) (\<lambda>previous_share.
           if cls self = cls previous_share then Inr ()
           else if Some (cls self) = SUCCESSOR (cls previous_share) then
             if get_height tracker (Some (hash previous_share)) < CHAIN_LENGTH net
             then Inl (PeerMisbehavingError ''switch without enough history'')
             else
               let counts =
                     get_desired_version_counts ext tracker
                       (get_nth_parent_hash tracker (Some (hash previous_share))
                          (CHAIN_LENGTH net * 9 div 10))
                       (CHAIN_LENGTH net div 10)
               in if dict_get counts (VERSION (cls self)) 0 < sum_list (dict_values counts) * 85 div 100
                  then Inl (PeerMisbehavingError ''switch without enough hash power upgraded'')
                  else Inr ()
           else Inl (PeerMisbehavingError (cannot_follow (cls self) (cls previous_share)))))"

text \<open>
  The rest of \<open>check\<close>: the hashes that the references of a version 8 or 9 share
  point to, \<open>generate_transaction\<close> on the share's own data, and the comparisons.
\<close>

definition list_getitem :: "'a list \<Rightarrow> nat \<Rightarrow> error + 'a" where
  "list_getitem xs i = (if i < length xs then Inr (xs ! i) else Inl IndexError)"

fun referenced_tx_hashes :: "tracker \<Rightarrow> share \<Rightarrow> tx_ref list \<Rightarrow> error + int list" where
  "referenced_tx_hashes tracker self [] = Inr []"
| "referenced_tx_hashes tracker self (x # xs) =
    on_ok (items_getitem tracker (get_nth_parent_hash tracker (Some (hash self)) (int (share_count x))))
      (\<lambda>s. on_ok (list_getitem (share_info.new_transaction_hashes (common.share_info (share.contents s)))
                     (tx_count x))
        (\<lambda>h. on_ok (referenced_tx_hashes tracker self xs) (\<lambda>hs. Inr (h # hs))))"

definition check :: "ext \<Rightarrow> net \<Rightarrow> tracker \<Rightarrow> share \<Rightarrow> error + gentx" where
  "check ext net tracker self =
    on_ok (check_previous_type ext net tracker self) (\<lambda>_.
    let info = common.share_info (share.contents self);
        c = cls self
    in
    on_ok (if c = Share then Inr [] else referenced_tx_hashes tracker self (transaction_hash_refs info))
      (\<lambda>other_tx_hashes.
    on_ok (generate_transaction c ext tracker (share_info.share_data info)
             (FloatingInteger_target ext (small_block_header.bits (header self)))
             (share_info.timestamp info)
             (FloatingInteger_target ext (share_info.bits info))
             (ref_merkle_link (share.contents self)) other_tx_hashes net None
             (last_txout_nonce (share.contents self)))
      (\<lambda>(share_info_v, gentx_v, other_tx_hashes2).
    if c \<noteq> Share \<and> other_tx_hashes2 \<noteq> other_tx_hashes then Inl AssertionError
    else if share_info_v \<noteq> info then Inl (ValueError ''share_info invalid'')
    else if hash256 ext (pack_gentx ext gentx_v) \<noteq> gentx_hash self
    then Inl (ValueError (''gentx doesn'' @ [CHR 0x27] @ ''t match hash_link''))
    else if c \<noteq> Share \<and>
            calculate_merkle_link ext (None # map Some other_tx_hashes) 0 \<noteq> contents.merkle_link (share.contents self)
    then Inl (ValueError ''merkle_link and other_tx_hashes do not match'')
    else Inr gentx_v)))"

section \<open>WeightsSkipList\<close>

text \<open>
  A delta and a solution are \<open>(share_count, weights, total_weight,
  total_donation_weight)\<close>. In a solution the weights are the linked list
  \<open>(weights_list, new_weights)\<close> that starts at \<open>None\<close>: a list of dictionaries, newest
  first. The argument \<open>(max_shares, desired_weight)\<close> is a pair.
\<close>

type_synonym delta = "int \<times> (bytes, int) dict \<times> int \<times> int"
type_synonym solution = "int \<times> (bytes, int) dict list \<times> int \<times> int"

definition get_delta :: "ext \<Rightarrow> tracker \<Rightarrow> int \<Rightarrow> error + delta" where
  "get_delta ext tracker element =
    on_ok (items_getitem tracker (Some element)) (\<lambda>s.
      let att = target_to_average_attempts ext (target s)
      in Inr (1,
              dict_set DAList.empty (new_script s) (att * (65535 - donation (share.share_data s))),
              att * 65535,
              att * donation (share.share_data s)))"

definition initial_solution :: "int \<times> int \<Rightarrow> error + solution" where
  "initial_solution args =
    (case args of
       (max_shares, desired_weight) \<Rightarrow>
         if desired_weight mod 65535 \<noteq> 0 then Inl AssertionError else Inr (0, [], 0, 0))"

definition apply_delta :: "solution \<Rightarrow> delta \<Rightarrow> int \<times> int \<Rightarrow> error + solution" where
  "apply_delta sol d args =
    (case (sol, d, args) of
       ((share_count1, weights_list, total_weight1, total_donation_weight1),
        (share_count2, weights2, total_weight2, total_donation_weight2),
        (max_shares, desired_weight)) \<Rightarrow>
         if total_weight1 + total_weight2 > desired_weight \<and> share_count2 = 1 then
           if (desired_weight - total_weight1) mod 65535 \<noteq> 0 then Inl AssertionError
           else
             (case dict_keys weights2 of
                [script_v] \<Rightarrow>
                  if total_weight2 div 65535 = 0 then Inl ZeroDivisionError
                  else
                    let new_weights =
                          dict_set DAList.empty script_v
                            ((desired_weight - total_weight1) div 65535 * dict_item weights2 script_v
                             div (total_weight2 div 65535))
                    in Inr (share_count1 + share_count2,
                            new_weights # weights_list,
                            desired_weight,
                            total_donation_weight1
                            + (desired_weight - total_weight1) div 65535 * total_donation_weight2
                              div (total_weight2 div 65535))
              | _ \<Rightarrow> Inl (ValueError ''unpack''))
         else
           Inr (share_count1 + share_count2, weights2 # weights_list,
                total_weight1 + total_weight2, total_donation_weight1 + total_donation_weight2))"

definition judge :: "solution \<Rightarrow> int \<times> int \<Rightarrow> int" where
  "judge sol args =
    (case (sol, args) of
       ((share_count_v, weights_list, total_weight, total_donation_weight),
        (max_shares, desired_weight)) \<Rightarrow>
         if share_count_v > max_shares \<or> total_weight > desired_weight then 1
         else if share_count_v = max_shares \<or> total_weight = desired_weight then 0
         else - 1)"

text \<open>
  Modelled from the spec: \<open>math.add_dicts\<close> and \<open>math.flatten_linked_list\<close> of
  \<open>p2pool.util.math\<close>, which are not part of the source at hand. The spec says
  that finalize flattens the linked list of per-hop weight maps into a single map,
  by addition per key.
\<close>

definition add_dicts :: "(bytes, int) dict list \<Rightarrow> (bytes, int) dict" where
  "add_dicts ds =
    foldl (\<lambda>res d. foldl (\<lambda>r (k, v). dict_set r k (dict_get r k 0 + v)) res (dict_items d))
      DAList.empty ds"

definition finalize :: "solution \<Rightarrow> int \<times> int \<Rightarrow> error + (bytes, int) dict \<times> int \<times> int" where
  "finalize sol args =
    (case (sol, args) of
       ((share_count_v, weights_list, total_weight, total_donation_weight),
        (max_shares, desired_weight)) \<Rightarrow>
         if \<not> (share_count_v \<le> max_shares \<and> total_weight \<le> desired_weight) then Inl AssertionError
         else if \<not> (share_count_v = max_shares \<or> total_weight = desired_weight) then Inl AssertionError
         else Inr (add_dicts (rev weights_list), total_weight, total_donation_weight))"

text \<open>
  Modelled from the spec: the query of the skip list (\<open>forest.TrackerSkipList\<close> over
  \<open>util.skiplist.SkipList\<close>), which is not part of the source at hand. The spec says:
  given \<open>(start, max_shares, desired_weight)\<close> it returns the weights of the
  contiguous chain starting at \<open>start\<close>, walking backward, and stops when
  \<open>max_shares\<close> shares have been consumed or exactly \<open>desired_weight\<close> has been
  accumulated. The walk below goes share by share (every skip has length 1) and
  uses the hooks of the source: \<open>initial_solution\<close>, \<open>get_delta\<close>, \<open>apply_delta\<close>,
  \<open>judge\<close>, \<open>finalize\<close>. \<open>skiplist_walk\<close> returns the solution that is finalized;
  \<open>elements\<close> are the hashes of the chain from \<open>start\<close> backward.
\<close>

fun skiplist_walk :: "ext \<Rightarrow> tracker \<Rightarrow> int \<times> int \<Rightarrow> solution \<Rightarrow> int list \<Rightarrow> error + solution" where
  "skiplist_walk ext tracker args sol [] = Inl AssertionError"
| "skiplist_walk ext tracker args sol (element # elements) =
    on_ok (get_delta ext tracker element) (\<lambda>d.
    on_ok (apply_delta sol d args) (\<lambda>sol_if.
      if judge sol_if args = 0 then Inr sol_if
      else if judge sol_if args < 0 then skiplist_walk ext tracker args sol_if elements
      else Inl AssertionError))"

definition skiplist_solution :: "ext \<Rightarrow> tracker \<Rightarrow> int list \<Rightarrow> int \<times> int \<Rightarrow> error + solution" where
  "skiplist_solution ext tracker elements args =
    on_ok (initial_solution args) (\<lambda>sol.
      if judge sol args = 0 then Inr sol else skiplist_walk ext tracker args sol elements)"

definition skiplist_call ::
  "ext \<Rightarrow> tracker \<Rightarrow> int list \<Rightarrow> int \<times> int \<Rightarrow> error + (bytes, int) dict \<times> int \<times> int" where
  "skiplist_call ext tracker elements args =
    on_ok (skiplist_solution ext tracker elements args) (\<lambda>sol. finalize sol args)"

section \<open>The end of OkayTracker.think\<close>

text \<open>
  The last part of \<open>think\<close>, from \<open>if best is not None\<close> to \<open>return\<close>. What the
  earlier parts computed comes in as arguments: \<open>best\<close>, \<open>best_tail_score\<close>, the
  set \<open>desired\<close> of tuples \<open>(peer, hash, ts, targ)\<close> as the list of its iteration
  order, \<open>punish\<close> for the first component of \<open>best_share.should_punish_reason(...)\<close>
  and \<open>now\<close> for \<open>int(time.time())\<close>. The debug output is left out. The result is
  \<open>(best, requests)\<close> of the returned triple, with the two cutoffs added in front so
  that they can be named: \<open>(timestamp_cutoff, target_cutoff, best, requests)\<close>.
\<close>

definition think_end ::
  "net \<Rightarrow> tracker \<Rightarrow> int \<Rightarrow> int option \<Rightarrow> int \<times> int option \<Rightarrow> int \<Rightarrow>
   (peer option \<times> int option \<times> int \<times> int) list \<Rightarrow>
   error + int \<times> int \<times> int option \<times> (peer option \<times> int option) list" where
  "think_end net tracker now best best_tail_score punish desired =
    (case best of
       Some b \<Rightarrow>
         on_ok (items_getitem tracker (Some b)) (\<lambda>best_share.
           let best_v = (if punish > 0 then previous_hash best_share else Some b);
               timestamp_cutoff = min now (share.timestamp best_share) - 3600
           in (case snd best_tail_score of
                 Some rate \<Rightarrow>
                   if SHARE_PERIOD net * rate + 1 = 0 then Inl ZeroDivisionError
                   else
                     let target_cutoff = 2 ^ 256 div (SHARE_PERIOD net * rate + 1) * 2
                     in Inr (timestamp_cutoff, target_cutoff, best_v,
                             map (\<lambda>(p, h, ts, targ). (p, h))
                               (filter (\<lambda>(p, h, ts, targ). ts \<ge> timestamp_cutoff) desired))
               | None \<Rightarrow>
                   let target_cutoff = 2 ^ 256 - 1
                   in Inr (timestamp_cutoff, target_cutoff, best_v,
                           map (\<lambda>(p, h, ts, targ). (p, h))
                             (filter (\<lambda>(p, h, ts, targ). ts \<ge> timestamp_cutoff) desired))))
     | None \<Rightarrow>
         let timestamp_cutoff = now - 24 * 60 * 60;
             target_cutoff = 2 ^ 256 - 1
         in Inr (timestamp_cutoff, target_cutoff, None,
                 map (\<lambda>(p, h, ts, targ). (p, h))
                   (filter (\<lambda>(p, h, ts, targ). ts \<ge> timestamp_cutoff) desired)))"

section \<open>Example inputs\<close>

text \<open>
  Concrete inputs on which the results below are instantiated. The functions of the
  modules outside this file are small stand-ins, except
  \<open>target_to_average_attempts\<close>, which is \<open>2**256//(target + 1)\<close>, and
  \<open>gentx_before_refhash\<close>, the bytes that the class attribute evaluates to.
\<close>

definition ex_merkle_link :: merkle_link where
  "ex_merkle_link = \<lparr>branch = [], index = 0\<rparr>"

definition ex_share_data :: share_data where
  "ex_share_data =
    \<lparr>previous_share_hash = None, coinbase = [1, 2, 3], nonce = 0, pubkey_hash = 0,
     subsidy = 5000000000, donation = 0, stale_info = None, desired_version = 9\<rparr>"

definition ex_share_info :: share_info where
  "ex_share_info =
    \<lparr>share_info.share_data = ex_share_data,
     new_transaction_hashes = [11, 12],
     transaction_hash_refs =
       [\<lparr>share_count = 0, tx_count = 0\<rparr>, \<lparr>share_count = 0, tx_count = 1\<rparr>,
        \<lparr>share_count = 1, tx_count = 0\<rparr>],
     far_share_hash = None, max_bits = 1000, bits = 100, timestamp = 1000\<rparr>"

definition ex_contents :: contents where
  "ex_contents =
    \<lparr>min_header = \<lparr>small_block_header.version = 2, previous_block = None,
                    timestamp = 1000, bits = 5, nonce = 7\<rparr>,
     share_info = ex_share_info,
     ref_merkle_link = ex_merkle_link,
     hash_link = \<lparr>hash_link.state = [1], extra_data = [], link_length = 78\<rparr>,
     last_txout_nonce = 0,
     merkle_link = ex_merkle_link\<rparr>"

definition ex_common :: common where
  "ex_common = common.truncate ex_contents"

definition ex_ext :: ext where
  "ex_ext =
    \<lparr>process = (\<lambda>st chunk. [sum_list st + sum_list chunk]),
     initial_state = [0x6a],
     unpack_int256 = (\<lambda>b. sum_list (map uint b)),
     pack_int256 = (\<lambda>n. [word_of_int n]),
     pack_int32 = (\<lambda>n. [word_of_int n, 0, 0, 0]),
     hash256 = (\<lambda>b. sum_list (map uint b)),
     check_merkle_link = (\<lambda>h l. h),
     calculate_merkle_link = (\<lambda>hs i. ex_merkle_link),
     pubkey_hash_to_script2 = (\<lambda>h. [0x76, 0xa9, word_of_int h, 0x88, 0xac]),
     target_to_average_attempts = (\<lambda>t. 2 ^ 256 div (t + 1)),
     FloatingInteger_target = (\<lambda>b. b),
     from_target_upper_bound = (\<lambda>t. t),
     pack_block_header = (\<lambda>h. [word_of_int (small_block_header.nonce h)]),
     pack_tx = (\<lambda>t. t),
     packed_size = (\<lambda>t. int (length t)),
     pack_gentx = (\<lambda>g. []),
     pack_ref_type = (\<lambda>c ident info. ident),
     gentx_before_refhash =
       (\<lambda>c. [0x43] @ DONATION_SCRIPT @ replicate 8 0
             @ (if c = NewNewShare then [0x25, 0x24] else [0x21, 0x20])),
     unpack_share1a = (\<lambda>b. Inr (ex_common, ex_merkle_link)),
     unpack_share1b = (\<lambda>b. Inr (ex_common, [])),
     unpack_share_type = (\<lambda>c b. Inr ex_contents),
     DEBUG = False\<rparr>"

definition ex_net :: net where
  "ex_net =
    \<lparr>SHARE_PERIOD = 10, CHAIN_LENGTH = 20, REAL_CHAIN_LENGTH = 20, TARGET_LOOKBEHIND = 200,
     SPREAD = 3, MIN_TARGET = 0, MAX_TARGET = 2 ^ 256 - 1, IDENTIFIER = [1, 2, 3, 4, 5, 6, 7, 8],
     POW_FUNC = (\<lambda>b. sum_list (map uint b))\<rparr>"

text \<open>
  A share object of class \<open>c\<close> with hash \<open>h\<close>, previous hash \<open>prev\<close>, vote \<open>dv\<close>,
  target \<open>tgt\<close>, timestamp \<open>ts\<close> and donation \<open>don\<close>.
\<close>

definition ex_share :: "share_class \<Rightarrow> int \<Rightarrow> int option \<Rightarrow> int \<Rightarrow> int \<Rightarrow> int \<Rightarrow> int \<Rightarrow> share" where
  "ex_share c h prev dv tgt ts don =
    \<lparr>cls = c, peer = None, contents = ex_contents, other_txs = None,
     share_data = ex_share_data\<lparr>previous_share_hash := prev, donation := don, share_data.desired_version := dv\<rparr>,
     max_target = tgt, target = tgt, timestamp = ts, previous_hash = prev,
     new_script = [0x51, word_of_int h], desired_version = dv, gentx_hash = 0,
     header = small_block_header.extend (min_header ex_contents) (block_header.fields 0),
     pow_hash = 0, hash = h, header_hash = h, new_transaction_hashes = []\<rparr>"

text \<open>
  Modelled from the spec: \<open>forest.Tracker\<close>, which is not part of the source at hand,
  for a single chain. The spec describes it as a forest keyed by share hash with
  \<open>items\<close>, \<open>get_height\<close>, \<open>get_height_and_last\<close>, \<open>get_nth_parent_hash\<close> and
  \<open>get_chain(start, n)\<close>, the walk over the ancestors. \<open>shares\<close> is the chain from
  the head backward to a share without previous share; the work deltas and the
  cumulative weights are not needed where this tracker is used and are constants.
\<close>

definition chain_from :: "share list \<Rightarrow> int option \<Rightarrow> share list" where
  "chain_from shares h = dropWhile (\<lambda>s. Some (hash s) \<noteq> h) shares"

definition chain_tracker :: "share list \<Rightarrow> tracker" where
  "chain_tracker shares =
    \<lparr>items = map_of (map (\<lambda>s. (hash s, s)) shares),
     get_height = (\<lambda>h. int (length (chain_from shares h))),
     get_height_and_last = (\<lambda>h. (int (length (chain_from shares h)), None)),
     get_nth_parent_hash =
       (\<lambda>h n. case drop (nat n) (chain_from shares h) of [] \<Rightarrow> None | s # rest \<Rightarrow> Some (hash s)),
     get_chain = (\<lambda>h n. take (nat n) (chain_from shares h)),
     get_delta_work = (\<lambda>a b. 0),
     get_delta_min_work = (\<lambda>a b. 0),
     get_cumulative_weights = (\<lambda>h n w. (DAList.empty, 0, 0))\<rparr>"

text \<open>
  A tracker with one share, of hash 1 and timestamp 1000, whose cumulative weights
  are two thirds for the script \<open>0xaa\<close>, one third for the script \<open>0xbb\<close> and
  nothing for the script \<open>0xcc\<close>.
\<close>

definition ex_weights :: "(bytes, int) dict" where
  "ex_weights = dict_set (dict_set (dict_set DAList.empty [0xaa] 131070) [0xbb] 65535) [0xcc] 0"

definition ex_amounts :: "(bytes, int) dict" where
  "ex_amounts = payout_amounts 5000000000 ex_weights 196605 [0x76, 0xa9, 0, 0x88, 0xac]"

definition ex_tracker :: tracker where
  "ex_tracker =
    (chain_tracker [ex_share NewNewShare 1 None 9 100 1000 0])
      \<lparr>get_cumulative_weights := (\<lambda>h n w. (ex_weights, 196605, 0))\<rparr>"

text \<open>
  \<open>generate_transaction\<close> for a version 9 share on top of the share of \<open>ex_tracker\<close>,
  with the desired timestamp 2000.
\<close>

definition ex_generated :: "error + share_info \<times> gentx \<times> int list" where
  "ex_generated =
    generate_transaction NewNewShare ex_ext ex_tracker (ex_share_data\<lparr>previous_share_hash := Some 1\<rparr>)
      100 2000 100 ex_merkle_link [] ex_net None 0"

lemmas ex_defs =
  ex_merkle_link_def ex_share_data_def ex_share_info_def ex_contents_def ex_common_def
  ex_ext_def ex_net_def ex_share_def chain_from_def chain_tracker_def ex_weights_def ex_tracker_def ex_amounts_def

section \<open>Auxiliary facts\<close>

lemma on_ok_Inr_iff: "on_ok m f = Inr r \<longleftrightarrow> (\<exists>x. m = Inr x \<and> f x = Inr r)"
  by (cases m) (simp_all add: on_ok_def)

lemma dict_items_empty: "dict_items DAList.empty = []"
  by (simp add: dict_items_def DAList.empty.rep_eq)

lemma dict_items_set: "dict_items (dict_set d k v) = AList.update k v (dict_items d)"
  by (simp add: dict_items_def dict_set_def DAList.update.rep_eq)

lemma dict_items_map_values:
  "dict_items (dict_map_values f d) = map (\<lambda>(k, v). (k, f v)) (dict_items d)"
  by (simp add: dict_items_def dict_map_values.rep_eq)

lemma lookup_items: "DAList.lookup d k = map_of (dict_items d) k"
  by (simp add: dict_items_def DAList.lookup.rep_eq)

lemma distinct_dict_keys: "distinct (dict_keys d)"
  by (simp add: dict_keys_def dict_items_def)

lemma lookup_dict_set: "DAList.lookup (dict_set d k v) k' = (if k = k' then Some v else DAList.lookup d k')"
  by (simp add: dict_set_def DAList.lookup_update)

lemma lookup_map_values: "DAList.lookup (dict_map_values f d) k = map_option f (DAList.lookup d k)"
  by (simp add: lookup_items dict_items_map_values map_of_map)

lemma set_dict_keys_set: "set (dict_keys (dict_set d k v)) = insert k (set (dict_keys d))"
  by (simp add: dict_keys_def dict_items_set AList.dom_update[symmetric] del: AList.dom_update) (simp add: AList.dom_update)

lemma mem_dict_keys_iff: "k \<in> set (dict_keys d) \<longleftrightarrow> DAList.lookup d k \<noteq> None"
  by (simp add: dict_keys_def lookup_items map_of_eq_None_iff)

lemma sum_update_distinct:
  "distinct (map fst al) \<Longrightarrow>
   sum_list (map snd (AList.update k v al)) =
   sum_list (map snd al) - (case map_of al k of None \<Rightarrow> 0 | Some old \<Rightarrow> old) + (v::int)"
proof (induction al)
  case Nil
  then show ?case by simp
next
  case (Cons p al)
  obtain a b where p: "p = (a, b)" by (cases p)
  show ?case
  proof (cases "a = k")
    case True
    with Cons.prems p have "k \<notin> fst ` set al" by auto
    then have "map_of al k = None" by (simp add: map_of_eq_None_iff)
    with True p show ?thesis by simp
  next
    case False
    with Cons p show ?thesis by simp
  qed
qed

lemma distinct_dict_items: "distinct (map fst (dict_items d))"
  by (simp add: dict_items_def)

lemma sum_dict_set:
  "sum_list (dict_values (dict_set d k v)) = sum_list (dict_values d) - dict_get d k 0 + (v::int)"
  by (simp add: dict_values_def dict_items_set dict_get_def lookup_items
      sum_update_distinct[OF distinct_dict_items])

lemma payout_amounts_sum:
  "sum_list (dict_values (payout_amounts sub weights total_weight this_script)) = sub"
  by (simp add: payout_amounts_def Let_def sum_dict_set)

lemma donation_in_payout_keys:
  "DONATION_SCRIPT \<in> set (dict_keys (payout_amounts sub weights total_weight this_script))"
  by (simp add: payout_amounts_def Let_def set_dict_keys_set)

lemma payout_lookup_other:
  "s \<noteq> this_script \<Longrightarrow> s \<noteq> DONATION_SCRIPT \<Longrightarrow>
   DAList.lookup (payout_amounts sub weights total_weight this_script) s =
   map_option (\<lambda>weight. sub * (199 * weight) div (200 * total_weight)) (DAList.lookup weights s)"
  by (simp add: payout_amounts_def Let_def lookup_dict_set lookup_map_values)

lemma payout_lookup_this:
  "this_script \<noteq> DONATION_SCRIPT \<Longrightarrow>
   DAList.lookup (payout_amounts sub weights total_weight this_script) this_script =
   Some ((case DAList.lookup weights this_script of
            None \<Rightarrow> 0
          | Some weight \<Rightarrow> sub * (199 * weight) div (200 * total_weight)) + sub div 200)"
  by (simp add: payout_amounts_def Let_def lookup_dict_set lookup_map_values dict_get_def
      split: option.splits)

lemma sum_split_key:
  "distinct (map fst al) \<Longrightarrow> map_of al k = Some v \<Longrightarrow>
   sum_list (map snd al) = (v::int) + sum_list (map snd (filter (\<lambda>(s, a). s \<noteq> k) al))"
proof (induction al)
  case Nil
  then show ?case by simp
next
  case (Cons p al)
  obtain a b where p: "p = (a, b)" by (cases p)
  show ?case
  proof (cases "a = k")
    case True
    with Cons.prems p have nk: "k \<notin> fst ` set al" and bv: "b = v" by auto
    have "filter (\<lambda>(s, a). s \<noteq> k) al = al"
      using nk by (intro filter_True) (auto simp: image_iff)
    with True p bv show ?thesis by simp
  next
    case False
    with Cons p show ?thesis by simp
  qed
qed

lemma payout_lookup_donation:
  "\<exists>v. DAList.lookup (payout_amounts sub weights total_weight this_script) DONATION_SCRIPT = Some v \<and>
     v = sub - sum_list (map snd (filter (\<lambda>(s, a). s \<noteq> DONATION_SCRIPT)
            (dict_items (payout_amounts sub weights total_weight this_script))))"
proof -
  let ?A = "payout_amounts sub weights total_weight this_script"
  have "DAList.lookup ?A DONATION_SCRIPT \<noteq> None"
    using donation_in_payout_keys[of sub weights total_weight this_script]
    by (simp add: mem_dict_keys_iff)
  then obtain v where v: "DAList.lookup ?A DONATION_SCRIPT = Some v" by auto
  have "sum_list (map snd (dict_items ?A)) =
        v + sum_list (map snd (filter (\<lambda>(s, a). s \<noteq> DONATION_SCRIPT) (dict_items ?A)))"
    using sum_split_key[of "dict_items ?A" DONATION_SCRIPT v] v
    by (simp add: lookup_items dict_items_def)
  moreover have "sum_list (map snd (dict_items ?A)) = sub"
    using payout_amounts_sum[of sub weights total_weight this_script] by (simp add: dict_values_def)
  ultimately show ?thesis using v by simp
qed

lemma last_sort_key_max:
  fixes f :: "'a \<Rightarrow> 'b::linorder"
  assumes "d \<in> set xs" and "\<And>x. x \<in> set xs \<Longrightarrow> x \<noteq> d \<Longrightarrow> f x < f d"
  shows "last (sort_key f xs) = d"
proof -
  let ?ys = "sort_key f xs"
  have ne: "?ys \<noteq> []" using assms(1) by (metis empty_iff list.set(1) set_sort)
  have srt: "sorted (map f ?ys)" by simp
  have "last ?ys \<in> set ?ys" using ne by (rule last_in_set)
  then have lin: "last ?ys \<in> set xs" by simp
  have "d \<in> set ?ys" using assms(1) by simp
  then obtain i where i: "i < length ?ys" "?ys ! i = d" by (metis in_set_conv_nth)
  have "f (?ys ! i) \<le> f (?ys ! (length ?ys - 1))"
    using sorted_nth_mono[OF srt, of i "length ?ys - 1"] i ne by simp
  then have "f d \<le> f (last ?ys)" using i ne by (simp add: last_conv_nth)
  then show ?thesis using assms(2)[OF lin] by force
qed

lemma payout_dests_length: "length (payout_dests amounts) \<le> 4000"
  by (simp add: payout_dests_def Let_def)

lemma payout_dests_subset: "set (payout_dests amounts) \<subseteq> set (dict_keys amounts)"
proof -
  have "set (payout_dests amounts) \<subseteq>
        set (sort_key (\<lambda>script. (script = DONATION_SCRIPT, dict_item amounts script, script)) (dict_keys amounts))"
    unfolding payout_dests_def Let_def by (rule set_drop_subset)
  then show ?thesis by simp
qed

lemma donation_key_greatest:
  "x \<noteq> d \<Longrightarrow> (x = d, a::int, x::bytes) < (d = d, b, d)"
  by simp

lemma last_sort_key_donation:
  assumes "(d::bytes) \<in> set xs"
  shows "last (sort_key (\<lambda>s. (s = d, (g s :: int), s)) xs) = d"
proof (rule last_sort_key_max)
  show "d \<in> set xs" by (rule assms)
next
  fix x assume "x \<in> set xs" "x \<noteq> d"
  then show "(x = d, g x, x) < (d = d, g d, d)" by (rule_tac donation_key_greatest)
qed

lemma donation_last_dests:
  assumes "DONATION_SCRIPT \<in> set (dict_keys amounts)"
  shows "payout_dests amounts \<noteq> [] \<and> last (payout_dests amounts) = DONATION_SCRIPT"
proof -
  let ?f = "\<lambda>script. (script = DONATION_SCRIPT, dict_item amounts script, script)"
  let ?ys = "sort_key ?f (dict_keys amounts)"
  have l: "last ?ys = DONATION_SCRIPT"
    using assms by (rule last_sort_key_donation)
  from assms have "dict_keys amounts \<noteq> []" by auto
  then have "0 < length (dict_keys amounts)" by simp
  then have pos: "0 < length ?ys" by simp
  then have lt: "length ?ys - 4000 < length ?ys" by simp
  have d: "payout_dests amounts = drop (length ?ys - 4000) ?ys"
    by (simp add: payout_dests_def Let_def)
  have "drop (length ?ys - 4000) ?ys \<noteq> []" using lt by simp
  moreover have "last (drop (length ?ys - 4000) ?ys) = last ?ys" using lt by (rule last_drop)
  ultimately show ?thesis unfolding d using l by simp
qed

lemma sum_filter_nonzero:
  "sum_list (map f (filter (\<lambda>s. f s = (0::int) \<longrightarrow> P s) xs)) = sum_list (map f xs)"
  by (induction xs) simp_all

lemma tx_outs_sum:
  "sum_list (map tx_out.value (gentx_tx_outs amounts dests last_script)) =
   sum_list (map (dict_item amounts) dests)"
  by (simp add: gentx_tx_outs_def comp_def sum_filter_nonzero)

lemma tx_outs_last:
  "gentx_tx_outs amounts dests last_script \<noteq> [] \<and>
   last (gentx_tx_outs amounts dests last_script) = \<lparr>value = 0, script = last_script\<rparr>"
  by (simp add: gentx_tx_outs_def)

lemma tx_outs_butlast:
  "butlast (gentx_tx_outs amounts dests last_script) =
   map (\<lambda>s. \<lparr>value = dict_item amounts s, script = s\<rparr>)
     (filter (\<lambda>s. dict_item amounts s \<noteq> 0 \<or> s = DONATION_SCRIPT) dests)"
  by (simp add: gentx_tx_outs_def butlast_append)

lemma on_okE: "on_ok m f = Inr r \<Longrightarrow> (\<And>x. m = Inr x \<Longrightarrow> f x = Inr r \<Longrightarrow> P) \<Longrightarrow> P"
  by (auto simp: on_ok_Inr_iff)

lemma make_share_info_timestamp:
  "share_info.timestamp (make_share_info net sd previous_share new_hashes refs far_hash mb b dts) =
   share_info_timestamp net previous_share dts"
  by (simp add: make_share_info_def)

lemma make_gentx_tx_outs:
  "tx_outs (make_gentx c ext net sd amounts dests info ref_link nonce_v) =
   gentx_tx_outs amounts dests (ref_script c ext (get_ref_hash c ext net info ref_link) nonce_v)"
  by (simp add: make_gentx_def)

lemma lookup_previous_share_Inr:
  "lookup_previous_share tracker sd = Inr ps \<longrightarrow>
   ps = (case previous_share_hash sd of None \<Rightarrow> None | Some h \<Rightarrow> items tracker h) \<and>
   (case previous_share_hash sd of None \<Rightarrow> True | Some h \<Rightarrow> items tracker h \<noteq> None)"
proof (cases "previous_share_hash sd")
  case None
  then show ?thesis by (simp add: lookup_previous_share_def)
next
  case (Some a)
  then show ?thesis
    by (cases "items tracker a") (auto simp: lookup_previous_share_def on_ok_def items_getitem_def)
qed

lemma checked_height_and_last_Inr:
  "checked_height_and_last tracker net sd = Inr hl \<Longrightarrow>
   hl = get_height_and_last tracker (previous_share_hash sd)"
  by (auto simp: checked_height_and_last_def split: prod.splits if_splits)

lemma checked_weights_Inr:
  "checked_weights ext tracker net sd block_target height = Inr w \<Longrightarrow>
   w = get_cumulative_weights tracker (previous_share_hash sd) (min height (REAL_CHAIN_LENGTH net))
         (65535 * SPREAD net * target_to_average_attempts ext block_target)"
  by (auto simp: checked_weights_def split: prod.splits if_splits)

lemma checked_amounts_Inr:
  "checked_amounts ext sd weights total_weight = Inr amounts \<Longrightarrow>
   amounts = payout_amounts (subsidy sd) weights total_weight (pubkey_hash_to_script2 ext (pubkey_hash sd)) \<and>
   sum_list (dict_values amounts) = subsidy sd \<and>
   (\<forall>x\<in>set (dict_values amounts). 0 \<le> x) \<and>
   (dict_items weights = [] \<or> total_weight \<noteq> 0)"
  by (auto simp: checked_amounts_def Let_def split: if_splits)

lemma generate_transaction_InrD:
  assumes "generate_transaction c ext tracker sd block_target desired_timestamp desired_target
             ref_link desired net known_txs nonce_v = Inr (si, g, oth)"
    and "get_height_and_last tracker (previous_share_hash sd) = (height, last_v)"
    and "get_cumulative_weights tracker (previous_share_hash sd) (min height (REAL_CHAIN_LENGTH net))
           (65535 * SPREAD net * target_to_average_attempts ext block_target) =
         (weights, total_weight, donation_weight)"
    and "amounts = payout_amounts (subsidy sd) weights total_weight (pubkey_hash_to_script2 ext (pubkey_hash sd))"
  shows "(case previous_share_hash sd of None \<Rightarrow> True | Some h \<Rightarrow> items tracker h \<noteq> None) \<and>
    sum_list (dict_values amounts) = subsidy sd \<and>
    (\<forall>x\<in>set (dict_values amounts). 0 \<le> x) \<and>
    (dict_items weights = [] \<or> total_weight \<noteq> 0) \<and>
    share_info.timestamp si =
           share_info_timestamp net
             (case previous_share_hash sd of None \<Rightarrow> None | Some h \<Rightarrow> items tracker h) desired_timestamp \<and>
    tx_outs g = gentx_tx_outs amounts (payout_dests amounts)
           (ref_script c ext (get_ref_hash c ext net si ref_link) nonce_v)"
proof -
  from assms(1) obtain ps h l pt w tw dw am nh rf where
    s1: "lookup_previous_share tracker sd = Inr ps" and
    s2: "checked_height_and_last tracker net sd = Inr (h, l)" and
    s4: "checked_weights ext tracker net sd block_target h = Inr (w, tw, dw)" and
    s5: "checked_amounts ext sd w tw = Inr am" and
    si: "si = make_share_info net sd ps nh rf
              (if l = None \<and> h < 99 then None else get_nth_parent_hash tracker (previous_share_hash sd) 99)
              (from_target_upper_bound ext pt)
              (from_target_upper_bound ext (clip desired_target (pt div 10, pt))) desired_timestamp" and
    g: "g = make_gentx c ext net sd am (payout_dests am) si ref_link nonce_v"
    by (simp add: generate_transaction_def on_ok_Inr_iff Let_def) blast
  from checked_height_and_last_Inr[OF s2] assms(2) have h: "h = height" by simp
  from checked_weights_Inr[OF s4] assms(3) h have w: "w = weights" "tw = total_weight" by simp_all
  from checked_amounts_Inr[OF s5] w assms(4) have am: "am = amounts" by simp
  from checked_amounts_Inr[OF s5] have chk:
    "sum_list (dict_values amounts) = subsidy sd" "\<forall>x\<in>set (dict_values amounts). 0 \<le> x"
    "dict_items weights = [] \<or> total_weight \<noteq> 0"
    unfolding am w by blast+
  from lookup_previous_share_Inr[rule_format, OF s1] have ps:
    "ps = (case previous_share_hash sd of None \<Rightarrow> None | Some h \<Rightarrow> items tracker h)"
    "(case previous_share_hash sd of None \<Rightarrow> True | Some h \<Rightarrow> items tracker h \<noteq> None)"
    by simp_all
  have ts: "share_info.timestamp si = share_info_timestamp net ps desired_timestamp"
    unfolding si by (rule make_share_info_timestamp)
  have outs: "tx_outs g = gentx_tx_outs am (payout_dests am)
      (ref_script c ext (get_ref_hash c ext net si ref_link) nonce_v)"
    unfolding g by (rule make_gentx_tx_outs)
  show ?thesis using ps chk ts outs am by simp
qed

lemma ex_generated_eval:
  "ex_generated =
    Inr (\<lparr>share_info.share_data = ex_share_data\<lparr>previous_share_hash := Some 1\<rparr>,
           new_transaction_hashes = [], transaction_hash_refs = [], far_share_hash = None,
           max_bits = 2 ^ 256 - 1, bits = (2 ^ 256 - 1) div 10, timestamp = 1019\<rparr>,
         \<lparr>gentx.version = 1,
           tx_ins = [\<lparr>previous_output = None, sequence = None, script = [1, 2, 3]\<rparr>],
           tx_outs =
             [\<lparr>value = 25000000, script = [0x76, 0xa9, 0, 0x88, 0xac]\<rparr>,
              \<lparr>value = 1658333333, script = [0xbb]\<rparr>,
              \<lparr>value = 3316666666, script = [0xaa]\<rparr>,
              \<lparr>value = 1, script = DONATION_SCRIPT\<rparr>,
              \<lparr>value = 0, script = [0x24, 0x24, 0, 0, 0, 0]\<rparr>],
           lock_time = 0\<rparr>,
         [])"
  by code_simp

lemma clip_as_max_min: "low \<le> high \<Longrightarrow> clip x (low, high) = max low (min high x)"
  by (simp add: clip_def)

section \<open>The timestamp of a generated share\<close>

text \<open>
  Claim C8. When \<open>generate_transaction\<close> returns, the timestamp in the returned
  \<open>share_info\<close> is the desired timestamp if there is no previous share; if there is
  one, with timestamp \<open>t\<close>, it is the desired timestamp clipped to the pair
  \<open>(t + 1, t + 2 * SHARE_PERIOD - 1)\<close>, which for a share period of at least one
  second is the clamp to that closed interval, at most \<open>SHARE_PERIOD - 1\<close> away from
  \<open>t + SHARE_PERIOD\<close>.
\<close>

theorem generate_transaction_timestamp:
  assumes "generate_transaction c ext tracker sd block_target desired_timestamp desired_target
             ref_link desired net known_txs nonce_v = Inr (info, g, oth)"
  shows "(previous_share_hash sd = None \<longrightarrow> share_info.timestamp info = desired_timestamp) \<and>
    (\<forall>h. previous_share_hash sd = Some h \<longrightarrow>
       (\<exists>p. items tracker h = Some p \<and>
          share_info.timestamp info =
            clip desired_timestamp
              (share.timestamp p + 1, share.timestamp p + 2 * SHARE_PERIOD net - 1) \<and>
          (1 \<le> SHARE_PERIOD net \<longrightarrow>
             share_info.timestamp info =
               max (share.timestamp p + 1)
                 (min (share.timestamp p + 2 * SHARE_PERIOD net - 1) desired_timestamp) \<and>
             \<bar>share_info.timestamp info - (share.timestamp p + SHARE_PERIOD net)\<bar>
               \<le> SHARE_PERIOD net - 1)))"
proof -
  obtain height last_v where hl: "get_height_and_last tracker (previous_share_hash sd) = (height, last_v)"
    by (cases "get_height_and_last tracker (previous_share_hash sd)") auto
  obtain weights total_weight donation_weight where
    cw: "get_cumulative_weights tracker (previous_share_hash sd) (min height (REAL_CHAIN_LENGTH net))
           (65535 * SPREAD net * target_to_average_attempts ext block_target) =
         (weights, total_weight, donation_weight)"
    by (metis prod_cases3)
  from generate_transaction_InrD[OF assms hl cw refl]
  have prev: "case previous_share_hash sd of None \<Rightarrow> True | Some h \<Rightarrow> items tracker h \<noteq> None"
    and ts: "share_info.timestamp info =
      share_info_timestamp net
        (case previous_share_hash sd of None \<Rightarrow> None | Some h \<Rightarrow> items tracker h) desired_timestamp"
    by blast+
  show ?thesis
  proof (cases "previous_share_hash sd")
    case None
    with ts show ?thesis by (simp add: share_info_timestamp_def)
  next
    case (Some h)
    with prev obtain p where p: "items tracker h = Some p" by auto
    let ?t = "share.timestamp p" and ?P = "SHARE_PERIOD net"
    have c: "share_info.timestamp info = clip desired_timestamp (?t + 1, ?t + 2 * ?P - 1)"
      using ts Some p by (simp add: share_info_timestamp_def algebra_simps)
    have m: "1 \<le> ?P \<Longrightarrow> clip desired_timestamp (?t + 1, ?t + 2 * ?P - 1) =
        max (?t + 1) (min (?t + 2 * ?P - 1) desired_timestamp)"
      by (rule clip_as_max_min) simp
    have b: "1 \<le> ?P \<Longrightarrow> \<bar>max (?t + 1) (min (?t + 2 * ?P - 1) desired_timestamp) - (?t + ?P)\<bar> \<le> ?P - 1"
      by linarith
    show ?thesis using Some p c m b by simp
  qed
qed

theorem generate_transaction_timestamp_witness:
  "\<exists>info g oth. ex_generated = Inr (info, g, oth) \<and>
     items ex_tracker 1 = Some (ex_share NewNewShare 1 None 9 100 1000 0) \<and>
     1 \<le> SHARE_PERIOD ex_net \<and>
     share_info.timestamp info = max (1000 + 1) (min (1000 + 2 * 10 - 1) 2000) \<and>
     share_info.timestamp info = 1019"
proof -
  obtain info g oth where eq: "ex_generated = Inr (info, g, oth)"
    using ex_generated_eval by blast
  have it: "items ex_tracker 1 = Some (ex_share NewNewShare 1 None 9 100 1000 0)"
    by (simp add: ex_defs)
  have sp: "SHARE_PERIOD ex_net = 10" by (simp add: ex_defs)
  have pv: "previous_share_hash (ex_share_data\<lparr>previous_share_hash := Some 1\<rparr>) = Some 1" by simp
  have tp: "share.timestamp (ex_share NewNewShare 1 None 9 100 1000 0) = 1000" by (simp add: ex_defs)
  from generate_transaction_timestamp[OF eq[unfolded ex_generated_def]] pv
  obtain p where p: "items ex_tracker 1 = Some p"
    and m: "1 \<le> SHARE_PERIOD ex_net \<longrightarrow>
       share_info.timestamp info =
         max (share.timestamp p + 1) (min (share.timestamp p + 2 * SHARE_PERIOD ex_net - 1) 2000)"
    by blast
  from p it have "p = ex_share NewNewShare 1 None 9 100 1000 0" by simp
  with m sp tp have v: "share_info.timestamp info = max (1000 + 1) (min (1000 + 2 * 10 - 1) 2000)"
    by simp
  then have w: "share_info.timestamp info = 1019" by simp
  have sp1: "1 \<le> SHARE_PERIOD ex_net" using sp by simp
  from eq it sp1 v w show ?thesis by blast
qed


end
